theory Spec2Isabelle
  imports Complex_Main
begin

section \<open>The risk calculation functions of app\_final\_fixed.py\<close>

text \<open>
  The numeric core of the application is four module-level functions
  (\<open>calculate_ldl_projection\<close>, \<open>estimate_10y_risk\<close>, \<open>convert_5yr\<close>,
  \<open>estimate_lifetime_risk\<close>) and the block of the results step that derives the
  lifetime display value, ARR and RRR from them.

  Numbers: a Python \<open>float\<close> is read as the real number it denotes and float
  arithmetic as exact real arithmetic; the integer inputs of the form (age, SBP, eGFR,
  the therapy count) are \<open>int\<close>. The exceptions that the arithmetic of these functions
  can raise are kept as values: \<open>math.log\<close> outside its domain, \<open>math.exp\<close> beyond the
  range of a double, an \<open>int\<close> too large to become a float, and division by zero.
\<close>

subsection \<open>LDL projection\<close>

text \<open>The dictionary \<open>E\<close> local to \<open>calculate_ldl_projection\<close>.\<close>

definition E :: "string \<rightharpoonup> real" where
  "E = [''Atorvastatin 80 mg'' \<mapsto> 0.50, ''Rosuvastatin 20 mg'' \<mapsto> 0.55,
        ''Ezetimibe 10 mg'' \<mapsto> 0.20, ''Bempedoic acid'' \<mapsto> 0.18,
        ''PCSK9 inhibitor'' \<mapsto> 0.60, ''Inclisiran'' \<mapsto> 0.55]"

text \<open>
  The loop \<open>for drug in pre_list + new_list: if drug in E: ldl *= (1 - E[drug])\<close>,
  with the running value \<open>ldl\<close> as accumulator.
\<close>

fun apply_drugs :: "real \<Rightarrow> string list \<Rightarrow> real" where
  "apply_drugs ldl [] = ldl"
| "apply_drugs ldl (drug # rest) =
     apply_drugs (case E drug of None \<Rightarrow> ldl | Some e \<Rightarrow> ldl * (1 - e)) rest"

definition calculate_ldl_projection :: "real \<Rightarrow> string list \<Rightarrow> string list \<Rightarrow> real" where
  "calculate_ldl_projection baseline_ldl pre_list new_list =
     max (apply_drugs baseline_ldl (pre_list @ new_list)) 0.5"

subsection \<open>Python's arithmetic\<close>

datatype error = ValueError | OverflowError | ZeroDivisionError

text \<open>\<open>math.log\<close> raises ValueError (math domain error) unless its argument is positive.\<close>

definition math_log :: "real \<Rightarrow> error + real" where
  "math_log x = (if x \<le> 0 then Inl ValueError else Inr (ln x))"

text \<open>
  \<open>math.exp\<close> raises OverflowError (math range error) when its result is beyond the
  range of a double, that is from \<open>2 ^ 1024\<close> on (arguments above 709.78).
\<close>

definition float_overflow :: real where
  "float_overflow = 2 ^ 1024"

definition math_exp :: "real \<Rightarrow> error + real" where
  "math_exp x = (if float_overflow \<le> exp x then Inl OverflowError else Inr (exp x))"

text \<open>
  An \<open>int\<close> that meets a float in \<open>*\<close> is converted to the nearest double first, and
  \<open>a / b\<close> on two \<open>int\<close>s gives the double nearest to the quotient. Both raise
  OverflowError when that double does not exist: from \<open>2 ^ 1024 - 2 ^ 970\<close> on in
  magnitude, halfway between the largest double and \<open>2 ^ 1024\<close>.
\<close>

definition double_limit :: real where
  "double_limit = 2 ^ 1024 - 2 ^ 970"

definition py_float :: "int \<Rightarrow> error + real" where
  "py_float n = (if double_limit \<le> \<bar>of_int n\<bar> then Inl OverflowError else Inr (of_int n))"

definition py_truediv :: "int \<Rightarrow> int \<Rightarrow> error + real" where
  "py_truediv a b =
     (if b = 0 then Inl ZeroDivisionError
      else if double_limit \<le> \<bar>of_int a / of_int b\<bar> then Inl OverflowError
      else Inr (of_int a / of_int b))"

text \<open>Float division \<open>a / b\<close> raises ZeroDivisionError when \<open>b\<close> is zero.\<close>

definition py_div :: "real \<Rightarrow> real \<Rightarrow> error + real" where
  "py_div a b = (if b = 0 then Inl ZeroDivisionError else Inr (a / b))"

text \<open>
  \<open>round(x, 1)\<close>: the nearest number with one decimal, a tie going to the even last
  digit.
\<close>

definition round_half_even :: "real \<Rightarrow> int" where
  "round_half_even y =
     (let f = \<lfloor>y\<rfloor>; d = y - of_int f
      in if d < 1 / 2 then f
         else if 1 / 2 < d then f + 1
         else if even f then f else f + 1)"

definition py_round1 :: "real \<Rightarrow> real" where
  "py_round1 x = of_int (round_half_even (x * 10)) / 10"

text \<open>
  The truth value of \<open>x\<close> in \<open>... if x else ...\<close> for a value that is \<open>None\<close> or a
  float: \<open>None\<close> and \<open>0.0\<close> are false.
\<close>

definition truthy :: "real option \<Rightarrow> bool" where
  "truthy v = (case v of None \<Rightarrow> False | Some x \<Rightarrow> x \<noteq> 0)"

subsection \<open>Risk functions\<close>

text \<open>
  In \<open>estimate_10y_risk\<close> the base of \<open>**\<close> is the constant 0.900, and in the two
  converters it is at least 0.05 because of the cap \<open>min(r10, 95.0)\<close>; on a positive
  base Python's float power is \<open>powr\<close>, and \<open>^\<close> for the integer exponent \<open>years\<close>.

  The linear predictor is evaluated from left to right after \<open>math.log\<close>: \<open>0.064*age\<close>,
  \<open>0.02*sbp\<close> and \<open>0.4*vasc\<close> convert their \<open>int\<close>, and \<open>egfr/10\<close> divides two \<open>int\<close>s.
\<close>

definition estimate_10y_risk ::
  "int \<Rightarrow> string \<Rightarrow> int \<Rightarrow> real \<Rightarrow> real \<Rightarrow> bool \<Rightarrow> bool \<Rightarrow> int \<Rightarrow> real \<Rightarrow> int
     \<Rightarrow> error + real" where
  "estimate_10y_risk age sex sbp tc hdl smoker diabetes egfr crp vasc =
     (let sex_v = (if sex = ''Male'' then 1 else 0 :: real);
          sm_v = (if smoker then 1 else 0 :: real);
          dm_v = (if diabetes then 1 else 0 :: real)
      in case math_log (crp + 1) of
           Inl err \<Rightarrow> Inl err
         | Inr crp_l \<Rightarrow>
        (case py_float age of
           Inl err \<Rightarrow> Inl err
         | Inr age_f \<Rightarrow>
        (case py_float sbp of
           Inl err \<Rightarrow> Inl err
         | Inr sbp_f \<Rightarrow>
        (case py_truediv egfr 10 of
           Inl err \<Rightarrow> Inl err
         | Inr egfr_10 \<Rightarrow>
        (case py_float vasc of
           Inl err \<Rightarrow> Inl err
         | Inr vasc_f \<Rightarrow>
             (let lp = 0.064 * age_f + 0.34 * sex_v + 0.02 * sbp_f + 0.25 * tc
                       - 0.25 * hdl + 0.44 * sm_v + 0.51 * dm_v
                       - 0.2 * egfr_10 + 0.25 * crp_l + 0.4 * vasc_f
              in case math_exp (lp - 5.8) of
                   Inl err \<Rightarrow> Inl err
                 | Inr ex \<Rightarrow>
                     Inr (py_round1 (min ((1 - 0.900 powr ex) * 100) 95.0))))))))"

definition convert_5yr :: "real \<Rightarrow> real" where
  "convert_5yr r10 =
     (let p = min r10 95.0 / 100
      in py_round1 (min ((1 - (1 - p) powr 0.5) * 100) 95.0))"

definition estimate_lifetime_risk :: "int \<Rightarrow> real \<Rightarrow> real" where
  "estimate_lifetime_risk age r10 =
     (let years = max (85 - age) 0;
          p10 = min r10 95.0 / 100;
          annual = 1 - (1 - p10) powr (1 / 10)
      in py_round1 (min ((1 - (1 - annual) ^ nat years) * 100) 95.0))"

subsection \<open>The results step\<close>

text \<open>
  What the results step computes from the ten-year risk: \<open>r5\<close>, \<open>rlt\<close>, the lifetime
  value it shows (\<open>None\<close> stands for the text N/A, \<open>Some x\<close> for \<open>fmt_pct(x)\<close>),
  \<open>arr10\<close> and \<open>rrr10\<close>.
\<close>

record results =
  five_year :: real
  ten_year :: real
  lifetime_risk :: real
  lifetime :: "real option"
  arr10 :: "real option"
  rrr10 :: "real option"

definition derived_metrics :: "int \<Rightarrow> real \<Rightarrow> error + results" where
  "derived_metrics age r10 =
     (let r5 = convert_5yr r10;
          rlt = estimate_lifetime_risk age r10;
          shown = (if 85 \<le> age then None else Some rlt);
          arr = (if age < 85 then Some (r10 - rlt) else None)
      in case (if truthy arr
               then (case py_div (the arr) r10 of
                       Inl err \<Rightarrow> Inl err
                     | Inr q \<Rightarrow> Inr (Some (py_round1 (q * 100))))
               else Inr None) of
           Inl err \<Rightarrow> Inl err
         | Inr rrr \<Rightarrow>
             Inr \<lparr>five_year = r5, ten_year = r10, lifetime_risk = rlt,
                  lifetime = shown, arr10 = arr, rrr10 = rrr\<rparr>)"


text \<open>The ranges that the widgets of the form allow for the inputs of the estimator.\<close>

definition valid_profile ::
  "int \<Rightarrow> string \<Rightarrow> int \<Rightarrow> real \<Rightarrow> real \<Rightarrow> int \<Rightarrow> real \<Rightarrow> int \<Rightarrow> bool" where
  "valid_profile age sex sbp tc hdl egfr crp vasc =
     (30 \<le> age \<and> age \<le> 90 \<and> (sex = ''Male'' \<or> sex = ''Female'')
      \<and> 90 \<le> sbp \<and> sbp \<le> 200 \<and> 2 \<le> tc \<and> tc \<le> 10 \<and> 0.5 \<le> hdl \<and> hdl \<le> 3
      \<and> 15 \<le> egfr \<and> egfr \<le> 120 \<and> 0.1 \<le> crp \<and> crp \<le> 20 \<and> 0 \<le> vasc \<and> vasc \<le> 3)"

text \<open>The integer arguments for which the conversions of the estimator succeed.\<close>

definition ints_in_double_range :: "int \<Rightarrow> int \<Rightarrow> int \<Rightarrow> int \<Rightarrow> bool" where
  "ints_in_double_range age sbp egfr vasc =
     (\<bar>real_of_int age\<bar> < double_limit \<and> \<bar>real_of_int sbp\<bar> < double_limit
      \<and> \<bar>real_of_int egfr / 10\<bar> < double_limit \<and> \<bar>real_of_int vasc\<bar> < double_limit)"

subsection \<open>The reduction-factor table as the specification words it\<close>

definition in_table :: "string \<Rightarrow> bool" where
  "in_table drug = (drug \<in> {''Atorvastatin 80 mg'', ''Rosuvastatin 20 mg'', ''Ezetimibe 10 mg'',
     ''Bempedoic acid'', ''PCSK9 inhibitor'', ''Inclisiran''})"

subsection \<open>The ten-year formula as the specification words it\<close>

definition spec_linear_predictor ::
  "real \<Rightarrow> real \<Rightarrow> real \<Rightarrow> real \<Rightarrow> real \<Rightarrow> real \<Rightarrow> real \<Rightarrow> real \<Rightarrow> real \<Rightarrow> real \<Rightarrow> real" where
  "spec_linear_predictor age sex sbp tc hdl smoker diabetic egfr crp vasc =
     0.064 * age + 0.34 * sex + 0.02 * sbp + 0.25 * tc - 0.25 * hdl + 0.44 * smoker
     + 0.51 * diabetic - 0.2 * (egfr / 10) + 0.25 * ln (crp + 1) + 0.4 * vasc"

definition spec_ten_year_risk :: "real \<Rightarrow> real" where
  "spec_ten_year_risk lp = py_round1 (min ((1 - 0.900 powr exp (lp - 5.8)) * 100) 95.0)"

definition encode_sex :: "string \<Rightarrow> real" where
  "encode_sex sex = (if sex = ''Male'' then 1 else 0)"

definition encode_flag :: "bool \<Rightarrow> real" where
  "encode_flag b = (if b then 1 else 0)"

section \<open>Properties of the LDL projection\<close>

lemma E_range: "E drug = Some e \<Longrightarrow> 0 < e \<and> e < 1"
  by (auto simp: E_def split: if_splits)

lemma apply_drugs_nonneg: "0 \<le> ldl \<Longrightarrow> 0 \<le> apply_drugs ldl ds"
proof (induction ds arbitrary: ldl)
  case Nil
  then show ?case by simp
next
  case (Cons d ds)
  show ?case
  proof (cases "E d")
    case None
    with Cons show ?thesis by simp
  next
    case (Some e)
    then have "0 \<le> 1 - e" using E_range [of d e] by simp
    with Cons.prems have "0 \<le> ldl * (1 - e)" by simp
    with Cons.IH Some show ?thesis by simp
  qed
qed

lemma apply_drugs_le: "0 \<le> ldl \<Longrightarrow> apply_drugs ldl ds \<le> ldl"
proof (induction ds arbitrary: ldl)
  case Nil
  then show ?case by simp
next
  case (Cons d ds)
  show ?case
  proof (cases "E d")
    case None
    with Cons show ?thesis by simp
  next
    case (Some e)
    then have e: "0 \<le> 1 - e" "1 - e \<le> 1" using E_range [of d e] by simp_all
    with Cons.prems have step: "0 \<le> ldl * (1 - e)" "ldl * (1 - e) \<le> ldl"
      by (simp_all add: mult_left_le)
    from Cons.IH [OF step(1)] step(2) Some show ?thesis by simp
  qed
qed

lemma E_None_iff: "E drug = None \<longleftrightarrow> \<not> in_table drug"
  by (simp add: E_def in_table_def)

lemma apply_drugs_filter:
  "apply_drugs ldl (filter in_table ds) = apply_drugs ldl ds"
proof (induction ds arbitrary: ldl)
  case Nil
  show ?case by simp
next
  case (Cons d ds)
  show ?case
  proof (cases "in_table d")
    case True
    with Cons show ?thesis by simp
  next
    case False
    then have "E d = None" by (simp add: E_None_iff)
    with False Cons show ?thesis by simp
  qed
qed

text \<open>
  C7: for every baseline LDL above 0 and every pair of therapy lists, whatever
  identifiers they hold, the projected LDL is at least 0.5.
\<close>

theorem ldl_projection_floor:
  "0 < baseline_ldl \<Longrightarrow> 0.5 \<le> calculate_ldl_projection baseline_ldl pre_list new_list"
  by (simp add: calculate_ldl_projection_def)

theorem ldl_projection_floor_witness:
  "(0::real) < 3 \<and> 0.5 \<le> calculate_ldl_projection 3 [''None'', ''Semaglutide''] []"
  using ldl_projection_floor [of 3 "[''None'', ''Semaglutide'']" "[]"] by simp

text \<open>
  C8: an identifier absent from the reduction-factor table changes nothing and raises
  nothing: for every baseline and every pair of lists the projection is the same
  with all such identifiers removed from both lists. \<open>None\<close> is such an identifier:
  with baseline 3.0 and Atorvastatin 80 mg as the new therapy, the projection is the
  same with \<open>[None]\<close> and with the empty list before admission, namely 3.0 * 0.5 = 1.5.
\<close>

theorem ldl_projection_none_neutral:
  "calculate_ldl_projection baseline_ldl pre_list new_list
     = calculate_ldl_projection baseline_ldl (filter in_table pre_list) (filter in_table new_list)
   \<and> \<not> in_table ''None''
   \<and> calculate_ldl_projection 3.0 [''None''] [''Atorvastatin 80 mg'']
     = calculate_ldl_projection 3.0 [] [''Atorvastatin 80 mg'']
   \<and> calculate_ldl_projection 3.0 [] [''Atorvastatin 80 mg''] = 3.0 * 0.5
   \<and> (3.0 * 0.5 :: real) = 1.5"
proof -
  have "apply_drugs baseline_ldl (filter in_table pre_list @ filter in_table new_list)
      = apply_drugs baseline_ldl (pre_list @ new_list)"
    using apply_drugs_filter [of baseline_ldl "pre_list @ new_list"] by simp
  then have general: "calculate_ldl_projection baseline_ldl pre_list new_list
     = calculate_ldl_projection baseline_ldl (filter in_table pre_list) (filter in_table new_list)"
    by (simp add: calculate_ldl_projection_def)
  have none: "\<not> in_table ''None''" by (simp add: in_table_def)
  have inst: "calculate_ldl_projection 3.0 [''None''] [''Atorvastatin 80 mg'']
       = calculate_ldl_projection 3.0 [] [''Atorvastatin 80 mg'']
     \<and> calculate_ldl_projection 3.0 [] [''Atorvastatin 80 mg''] = 3.0 * 0.5
     \<and> (3.0 * 0.5 :: real) = 1.5"
    by (simp add: calculate_ldl_projection_def E_def)
  from general none inst show ?thesis by blast
qed

theorem ldl_projection_none_neutral_witness:
  "calculate_ldl_projection 3.0 [''None'', ''Semaglutide''] [''Icosapent ethyl'', ''Atorvastatin 80 mg'']
     = calculate_ldl_projection 3.0 [] [''Atorvastatin 80 mg'']"
  using ldl_projection_none_neutral
    [of "3.0" "[''None'', ''Semaglutide'']" "[''Icosapent ethyl'', ''Atorvastatin 80 mg'']"]
  by (simp add: in_table_def)

text \<open>
  C10: for every baseline LDL of at least 0.5 and every pair of therapy lists, the
  projected LDL is at most the baseline.
\<close>

theorem ldl_projection_le_baseline:
  "0.5 \<le> baseline_ldl \<Longrightarrow>
     calculate_ldl_projection baseline_ldl pre_list new_list \<le> baseline_ldl"
  using apply_drugs_le [of baseline_ldl "pre_list @ new_list"]
  by (simp add: calculate_ldl_projection_def)

theorem ldl_projection_le_baseline_witness:
  "(0.5::real) \<le> 3
   \<and> calculate_ldl_projection 3 [''Atorvastatin 80 mg''] [''Ezetimibe 10 mg''] \<le> 3"
  using ldl_projection_le_baseline [of 3 "[''Atorvastatin 80 mg'']" "[''Ezetimibe 10 mg'']"]
  by simp

section \<open>Rounding to one decimal\<close>

lemma rhe_of_int: "round_half_even (of_int k) = k"
  by (simp add: round_half_even_def)

lemma rhe_floor: "\<lfloor>y\<rfloor> \<le> round_half_even y \<and> round_half_even y \<le> \<lfloor>y\<rfloor> + 1"
  by (simp add: round_half_even_def Let_def)

lemma rhe_mono: "x \<le> y \<Longrightarrow> round_half_even x \<le> round_half_even y"
proof (cases "\<lfloor>x\<rfloor> < \<lfloor>y\<rfloor>")
  case True
  have "round_half_even x \<le> \<lfloor>x\<rfloor> + 1" using rhe_floor [of x] by simp
  also have "\<dots> \<le> \<lfloor>y\<rfloor>" using True by simp
  also have "\<dots> \<le> round_half_even y" using rhe_floor [of y] by simp
  finally show ?thesis .
next
  case False
  assume le: "x \<le> y"
  then have "\<lfloor>x\<rfloor> \<le> \<lfloor>y\<rfloor>" by (rule floor_mono)
  with False have eq: "\<lfloor>x\<rfloor> = \<lfloor>y\<rfloor>" by simp
  with le show ?thesis
    by (auto simp: round_half_even_def Let_def)
qed

lemma py_round1_mono: "x \<le> y \<Longrightarrow> py_round1 x \<le> py_round1 y"
  by (simp add: py_round1_def rhe_mono divide_right_mono)

lemma py_round1_tenth: "py_round1 (of_int k / 10) = of_int k / 10"
  by (simp add: py_round1_def rhe_of_int)

lemma py_round1_idem: "py_round1 (py_round1 x) = py_round1 x"
  unfolding py_round1_def [of x] by (rule py_round1_tenth)

lemma py_round1_range: "0 \<le> x \<Longrightarrow> x \<le> 95 \<Longrightarrow> 0 \<le> py_round1 x \<and> py_round1 x \<le> 95"
  using py_round1_mono [of 0 x] py_round1_mono [of x 95]
    py_round1_tenth [of 0] py_round1_tenth [of 950] by simp

section \<open>The ten-year estimator and the converters\<close>

lemma estimate_10y_risk_cases:
  "estimate_10y_risk age sex sbp tc hdl smoker diabetes egfr crp vasc =
     (let lp = spec_linear_predictor (of_int age) (encode_sex sex) (of_int sbp) tc hdl
                 (encode_flag smoker) (encode_flag diabetes) (of_int egfr) crp (of_int vasc)
      in if crp \<le> - 1 then Inl ValueError
         else if \<not> ints_in_double_range age sbp egfr vasc then Inl OverflowError
         else if float_overflow \<le> exp (lp - 5.8) then Inl OverflowError
         else Inr (spec_ten_year_risk lp))"
  by (simp add: estimate_10y_risk_def math_log_def math_exp_def py_float_def py_truediv_def
      ints_in_double_range_def Let_def not_less
      spec_linear_predictor_def spec_ten_year_risk_def encode_sex_def encode_flag_def)

lemma powr_unit: "0 < q \<Longrightarrow> q \<le> 1 \<Longrightarrow> 0 \<le> a \<Longrightarrow> 0 < q powr a \<and> q powr a \<le> (1::real)"
  using powr_mono' [of 0 a q] by simp

lemma spec_ten_year_risk_range:
  "0 \<le> spec_ten_year_risk lp \<and> spec_ten_year_risk lp \<le> 95
   \<and> py_round1 (spec_ten_year_risk lp) = spec_ten_year_risk lp"
proof -
  have "0.9 powr exp (lp - 5.8) \<le> (1::real)"
    using powr_unit [of "0.9" "exp (lp - 5.8)"] by simp
  then have "0 \<le> min ((1 - 0.9 powr exp (lp - 5.8)) * 100) (95::real)" by simp
  moreover have "min ((1 - 0.9 powr exp (lp - 5.8)) * 100) (95::real) \<le> 95" by simp
  ultimately show ?thesis
    unfolding spec_ten_year_risk_def using py_round1_range py_round1_idem by simp
qed

lemma ten_year_value:
  assumes "estimate_10y_risk age sex sbp tc hdl smoker diabetes egfr crp vasc = Inr r"
  shows "0 \<le> r \<and> r \<le> 95 \<and> py_round1 r = r"
proof -
  from assms obtain lp where "r = spec_ten_year_risk lp"
    unfolding estimate_10y_risk_cases Let_def by (auto split: if_splits)
  then show ?thesis using spec_ten_year_risk_range [of lp] by simp
qed

lemma convert_5yr_unfold:
  "convert_5yr r = py_round1 (min ((1 - (1 - min r 95 / 100) powr (1 / 2)) * 100) 95)"
  by (simp add: convert_5yr_def)

lemma convert_5yr_range:
  assumes "0 \<le> r"
  shows "0 \<le> convert_5yr r \<and> convert_5yr r \<le> 95"
proof -
  define q where "q = 1 - min r 95 / 100"
  have q: "0 < q" "q \<le> 1" using assms by (simp_all add: q_def)
  have "q powr (1 / 2) \<le> 1" using powr_unit [OF q, of "1 / 2"] by simp
  then have lo: "0 \<le> min ((1 - q powr (1 / 2)) * 100) 95" by simp
  have hi: "min ((1 - q powr (1 / 2)) * 100) 95 \<le> 95" by simp
  show ?thesis
    unfolding convert_5yr_unfold q_def [symmetric] using lo hi by (rule py_round1_range)
qed

lemma convert_5yr_le:
  assumes "0 \<le> r" "r \<le> 95" "py_round1 r = r"
  shows "convert_5yr r \<le> r"
proof -
  define q where "q = 1 - min r 95 / 100"
  have q: "0 < q" "q \<le> 1" and r: "r = (1 - q) * 100" using assms by (simp_all add: q_def)
  have "q powr 1 \<le> q powr (1 / 2)" using q by (intro powr_mono') simp_all
  then have "q \<le> q powr (1 / 2)" using q by simp
  then have "min ((1 - q powr (1 / 2)) * 100) 95 \<le> r" using r by simp
  then have "py_round1 (min ((1 - q powr (1 / 2)) * 100) 95) \<le> py_round1 r"
    by (rule py_round1_mono)
  then show ?thesis
    unfolding convert_5yr_unfold q_def [symmetric] assms(3) .
qed

lemma estimate_lifetime_risk_unfold:
  "estimate_lifetime_risk age r =
     py_round1 (min ((1 - ((1 - min r 95 / 100) powr (1 / 10)) ^ nat (max (85 - age) 0)) * 100) 95)"
  by (simp add: estimate_lifetime_risk_def)

lemma lifetime_at_85: "85 \<le> age \<Longrightarrow> estimate_lifetime_risk age r = 0"
  unfolding estimate_lifetime_risk_unfold py_round1_def
  using rhe_of_int [of 0] by simp

lemma lifetime_range:
  assumes "0 \<le> r"
  shows "0 \<le> estimate_lifetime_risk age r \<and> estimate_lifetime_risk age r \<le> 95"
proof -
  define q where "q = 1 - min r 95 / 100"
  define b where "b = q powr (1 / 10)"
  define n where "n = nat (max (85 - age) 0)"
  have q: "0 < q" "q \<le> 1" using assms by (simp_all add: q_def)
  have b: "0 < b" "b \<le> 1" using powr_unit [OF q, of "1 / 10"] by (simp_all add: b_def)
  have "b ^ n \<le> 1" using b by (simp add: power_le_one)
  then have lo: "0 \<le> min ((1 - b ^ n) * 100) 95" by simp
  have hi: "min ((1 - b ^ n) * 100) 95 \<le> 95" by simp
  show ?thesis
    unfolding estimate_lifetime_risk_unfold q_def [symmetric] b_def [symmetric] n_def [symmetric]
    using lo hi by (rule py_round1_range)
qed



section \<open>Bounds on the exponential\<close>

lemma exp_one_ge_two: "2 \<le> exp (1::real)"
  using exp_ge_add_one_self [of "1::real"] by simp

lemma exp_lower: 
  assumes "real n \<le> x"
  shows "2 ^ n \<le> exp x"
proof -
  have "(2::real) ^ n \<le> exp 1 ^ n" using exp_one_ge_two by (intro power_mono) simp_all
  also have "\<dots> = exp (real n)" using exp_of_nat_mult [of n "1::real"] by simp
  also have "\<dots> \<le> exp x" using assms by simp
  finally show ?thesis .
qed

lemma exp_upper:
  assumes "x \<le> real n"
  shows "exp x \<le> 3 ^ n"
proof -
  have "exp x \<le> exp (real n)" using assms by simp
  also have "\<dots> = exp 1 ^ n" using exp_of_nat_mult [of n "1::real"] by simp
  also have "\<dots> \<le> 3 ^ n" using exp_le by (intro power_mono) simp_all
  finally show ?thesis .
qed

lemma no_overflow_upto_20: 
  assumes "x \<le> 20"
  shows "exp x < float_overflow"
proof -
  have "exp x \<le> 3 ^ 20" using exp_upper [of x 20] assms by simp
  also have "(3::real) ^ 20 < 2 ^ 1024" by simp
  finally show ?thesis by (simp add: float_overflow_def)
qed


lemma spec_ten_year_risk_capped:
  assumes "5 \<le> lp - 5.8"
  shows "spec_ten_year_risk lp = 95"
proof -
  have "(32::real) \<le> exp (lp - 5.8)" using exp_lower [of 5 "lp - 5.8"] assms by simp
  then have "0.9 powr exp (lp - 5.8) \<le> 0.9 powr (32::real)"
    by (intro powr_mono') simp_all
  also have "(0.9::real) powr 32 = 0.9 ^ 32"
    using powr_realpow [of "0.9::real" 32] by simp
  also have "\<dots> \<le> 0.05" by (simp add: power_divide)
  finally have "95 \<le> (1 - 0.9 powr exp (lp - 5.8)) * (100::real)" by simp
  then have "min ((1 - 0.9 powr exp (lp - 5.8)) * 100) (95::real) = 95" by simp
  then show ?thesis
    unfolding spec_ten_year_risk_def using py_round1_tenth [of 950] by simp
qed

section \<open>Profiles of the form and concrete evaluations\<close>

lemma valid_profile_predictor:
  assumes "valid_profile age sex sbp tc hdl egfr crp vasc"
  shows "- 1 < crp
    \<and> spec_linear_predictor (of_int age) (encode_sex sex) (of_int sbp) tc hdl
          (encode_flag smoker) (encode_flag diabetes) (of_int egfr) crp (of_int vasc) - 5.8 \<le> 20"
proof -
  have crp: "0 \<le> crp" "crp \<le> 20" using assms by (simp_all add: valid_profile_def)
  then have ln: "ln (crp + 1) \<le> 20" using ln_add_one_self_le_self [of crp] by (simp add: add.commute)
  have s: "encode_sex sex \<le> 1" by (simp add: encode_sex_def)
  have f: "encode_flag smoker \<le> 1" "encode_flag diabetes \<le> 1" by (simp_all add: encode_flag_def)
  have a: "real_of_int age \<le> 90" "real_of_int sbp \<le> 200" "15 \<le> real_of_int egfr"
      "real_of_int vasc \<le> 3" "tc \<le> 10" "0.5 \<le> hdl"
    using assms by (simp_all add: valid_profile_def)
  show ?thesis unfolding spec_linear_predictor_def using crp ln s f a by simp
qed

lemma small_ints_in_double_range:
  assumes "\<bar>age\<bar> \<le> 20000" "\<bar>sbp\<bar> \<le> 60000" "\<bar>egfr\<bar> \<le> 200" "\<bar>vasc\<bar> \<le> 3"
  shows "ints_in_double_range age sbp egfr vasc"
proof -
  have b: "(60000::real) < double_limit" by (simp add: double_limit_def)
  have "\<bar>real_of_int age\<bar> \<le> 20000" "\<bar>real_of_int sbp\<bar> \<le> 60000"
    "\<bar>real_of_int egfr\<bar> \<le> 200" "\<bar>real_of_int vasc\<bar> \<le> 3"
    using assms by linarith+
  with b show ?thesis unfolding ints_in_double_range_def by simp
qed

lemma valid_profile_ints:
  assumes "valid_profile age sex sbp tc hdl egfr crp vasc"
  shows "ints_in_double_range age sbp egfr vasc"
  using assms by (intro small_ints_in_double_range) (simp_all add: valid_profile_def)

lemma valid_profile_result:
  assumes "valid_profile age sex sbp tc hdl egfr crp vasc"
  shows "estimate_10y_risk age sex sbp tc hdl smoker diabetes egfr crp vasc =
    Inr (spec_ten_year_risk
      (spec_linear_predictor (of_int age) (encode_sex sex) (of_int sbp) tc hdl
          (encode_flag smoker) (encode_flag diabetes) (of_int egfr) crp (of_int vasc)))"
  using valid_profile_predictor [OF assms, of smoker diabetes] valid_profile_ints [OF assms]
  unfolding estimate_10y_risk_cases Let_def
  by (auto dest: no_overflow_upto_20)

lemma max_profile_capped:
  assumes "60 \<le> age" "age \<le> 90"
  shows "estimate_10y_risk age ''Male'' 200 10 0.5 True True 15 20 3 = Inr 95"
proof -
  define lp where "lp = spec_linear_predictor (of_int age) (encode_sex ''Male'') (of_int 200) 10 0.5
          (encode_flag True) (encode_flag True) (of_int 15) 20 (of_int 3)"
  have v: "valid_profile age ''Male'' 200 10 0.5 15 20 3"
    using assms by (simp add: valid_profile_def)
  have l: "0 \<le> ln (21::real)" by simp
  have a: "60 \<le> real_of_int age" using assms by simp
  have "lp = 8 / 125 * real_of_int age + 1713 / 200 + ln 21 / 4"
    unfolding lp_def spec_linear_predictor_def encode_sex_def encode_flag_def by simp
  with l a have "5 \<le> lp - 5.8" by linarith
  then have "spec_ten_year_risk lp = 95" by (rule spec_ten_year_risk_capped)
  then show ?thesis using valid_profile_result [OF v, of True True] by (simp add: lp_def)
qed


lemma lifetime_of_zero: "estimate_lifetime_risk age 0 = 0"
  unfolding estimate_lifetime_risk_unfold py_round1_def
  using rhe_of_int [of 0] by simp





section \<open>The derived values of the results step\<close>

lemma derived_metrics_value:
  "derived_metrics age r10 =
     Inr \<lparr>five_year = convert_5yr r10, ten_year = r10,
          lifetime_risk = estimate_lifetime_risk age r10,
          lifetime = (if 85 \<le> age then None else Some (estimate_lifetime_risk age r10)),
          arr10 = (if age < 85 then Some (r10 - estimate_lifetime_risk age r10) else None),
          rrr10 = (if age < 85 \<and> r10 \<noteq> estimate_lifetime_risk age r10
                   then Some (py_round1 ((r10 - estimate_lifetime_risk age r10) / r10 * 100))
                   else None)\<rparr>"
proof (cases "r10 = 0")
  case True
  then show ?thesis
    by (simp add: derived_metrics_def Let_def truthy_def py_div_def lifetime_of_zero)
next
  case False
  then show ?thesis
    by (simp add: derived_metrics_def Let_def truthy_def py_div_def)
qed


section \<open>Risk percentages, horizons and derived metrics\<close>

text \<open>
  C1, as the code has it: for every age of 85 or more \<open>estimate_lifetime_risk\<close> itself
  returns the number 0.0, since \<open>years\<close> is clamped to 0. The value that stands for
  "not applicable" is made by its caller: the results step shows the lifetime risk as
  N/A and sets ARR and RRR to \<open>None\<close> instead of using that 0.0.
\<close>

theorem lifetime_not_applicable_in_results:
  "85 \<le> age \<Longrightarrow>
     estimate_lifetime_risk age r10 = 0
     \<and> derived_metrics age r10 =
         Inr \<lparr>five_year = convert_5yr r10, ten_year = r10, lifetime_risk = 0,
              lifetime = None, arr10 = None, rrr10 = None\<rparr>"
  by (simp add: derived_metrics_value lifetime_at_85)

theorem lifetime_not_applicable_in_results_witness:
  "(85::int) \<le> 90
   \<and> estimate_lifetime_risk 90 95 = 0
   \<and> derived_metrics 90 95 =
       Inr \<lparr>five_year = convert_5yr 95, ten_year = 95, lifetime_risk = 0,
            lifetime = None, arr10 = None, rrr10 = None\<rparr>"
  using lifetime_not_applicable_in_results [of 90 95] by simp

text \<open>
  The function called at age 85 returns a number, not a marker.
\<close>

theorem lifetime_at_85_is_zero_counterexample:
  "(85::int) \<le> 85 \<and> estimate_lifetime_risk 85 95 = 0"
  using lifetime_at_85 [of 85 95] by simp










text \<open>
  C5: for every profile within the ranges of the form, the ten-year risk returned by
  \<open>estimate_10y_risk\<close>, the five-year risk \<open>convert_5yr\<close> makes of it and the lifetime
  risk \<open>estimate_lifetime_risk\<close> makes of it all lie in the closed interval from 0 to
  95.0.
\<close>

theorem risk_percentages_in_range:
  assumes "valid_profile age sex sbp tc hdl egfr crp vasc"
  shows "\<exists>r10. estimate_10y_risk age sex sbp tc hdl smoker diabetes egfr crp vasc = Inr r10
     \<and> 0 \<le> r10 \<and> r10 \<le> 95
     \<and> 0 \<le> convert_5yr r10 \<and> convert_5yr r10 \<le> 95
     \<and> 0 \<le> estimate_lifetime_risk age r10 \<and> estimate_lifetime_risk age r10 \<le> 95"
proof -
  from valid_profile_result [OF assms, of smoker diabetes] obtain r10
    where r: "estimate_10y_risk age sex sbp tc hdl smoker diabetes egfr crp vasc = Inr r10"
    by blast
  from ten_year_value [OF r] have b: "0 \<le> r10" "r10 \<le> 95" by simp_all
  show ?thesis
    using r b convert_5yr_range [OF b(1)] lifetime_range [OF b(1), of age] by blast
qed

theorem risk_percentages_in_range_witness:
  "valid_profile 60 ''Male'' 140 5.2 1.3 90 2.5 0
   \<and> (\<exists>r10. estimate_10y_risk 60 ''Male'' 140 5.2 1.3 False False 90 2.5 0 = Inr r10
     \<and> 0 \<le> r10 \<and> r10 \<le> 95
     \<and> 0 \<le> convert_5yr r10 \<and> convert_5yr r10 \<le> 95
     \<and> 0 \<le> estimate_lifetime_risk 60 r10 \<and> estimate_lifetime_risk 60 r10 \<le> 95)"
proof -
  have v: "valid_profile 60 ''Male'' 140 5.2 1.3 90 2.5 0" by (simp add: valid_profile_def)
  show ?thesis using v risk_percentages_in_range [OF v, of False False] by blast
qed

text \<open>
  C6: for every ten-year risk \<open>r10\<close> that \<open>estimate_10y_risk\<close> returns, the five-year
  risk \<open>convert_5yr r10\<close> is at most \<open>r10\<close>.
\<close>

theorem five_year_le_ten_year:
  assumes "estimate_10y_risk age sex sbp tc hdl smoker diabetes egfr crp vasc = Inr r10"
  shows "convert_5yr r10 \<le> r10"
  using ten_year_value [OF assms] by (intro convert_5yr_le) simp_all

theorem five_year_le_ten_year_witness:
  "estimate_10y_risk 80 ''Male'' 200 10 0.5 True True 15 20 3 = Inr 95
   \<and> convert_5yr 95 \<le> 95"
proof -
  have h: "estimate_10y_risk 80 ''Male'' 200 10 0.5 True True 15 20 3 = Inr 95"
    by (rule max_profile_capped) simp_all
  show ?thesis using h five_year_le_ten_year [OF h] by blast
qed




end
